theory Spec2Isabelle
  imports
    Main
    "HOL-Library.Word"
    "HOL-Library.Sublist"
    "HOL-Library.AList"
    "HOL-Library.Char_ord"
    "HOL-Library.List_Lexorder"
begin

section \<open>Go values shared by the packages\<close>

text \<open>
  Go's \<open>int\<close> is a machine integer; the released binaries are built for 64-bit
  targets (\<open>cloud-nuke_darwin_amd64\<close>), so it is a 64-bit word read as signed:
  \<open>-1 * limit\<close> wraps at the smallest value.
\<close>

type_synonym go_int = "64 word"

text \<open>
  A Go \<open>error\<close> value is identified with its message (\<open>err.Error()\<close>).
  \<open>errors.WithStackTrace\<close> of gruntwork-cli wraps an error with a stack trace and
  keeps the message; the wrapper is kept as a constructor so that a wrapped error stays
  distinguishable from the one the provider returned.
\<close>

datatype error = Err string | WithStackTrace error | InvalidFlagError string string

text \<open>
  \<open>InvalidFlagError{Name, Value}\<close> is a struct of package commands declared in a
  file that is not modelled here; only its use as an error value is modelled, and its
  message is taken to name the flag and the value.
\<close>

fun Error :: "error \<Rightarrow> string" where
  "Error (Err msg) = msg"
| "Error (WithStackTrace e) = Error e"
| "Error (InvalidFlagError name v) = ''Invalid value '' @ v @ '' for flag '' @ name"

text \<open>\<open>strings.Contains(s, substr)\<close>: \<open>substr\<close> occurs in \<open>s\<close> as a contiguous run.\<close>

definition Contains :: "string \<Rightarrow> string \<Rightarrow> bool" where
  "Contains s substr = sublist substr s"

text \<open>\<open>collections.ListContainsElement(list, element)\<close> of gruntwork-cli.\<close>

definition ListContainsElement :: "string list \<Rightarrow> string \<Rightarrow> bool" where
  "ListContainsElement xs element = (element \<in> set xs)"

text \<open>A run-time panic ends the goroutine; it is a result of its own, not an \<open>error\<close>.\<close>

datatype panic = SliceBoundsOutOfRange | SessionMust error | NilDereference

section \<open>Package aws: batching (\<open>split\<close>)\<close>

text \<open>
  The loop of \<open>split\<close>:
  \<^verbatim>\<open>for len(identifiers) >= limit {
      chunk, identifiers = identifiers[:limit], identifiers[limit:]
      chunks = append(chunks, chunk) }\<close>
  It is entered with \<open>limit > 0\<close> only (a zero limit returns before it, a negative one
  panics at the first slice expression); the guard \<open>0 < limit\<close> of the model stands for
  that and makes the recursion terminate. The result is the remaining identifiers and
  the chunks appended so far.
\<close>

function split_loop :: "'a list \<Rightarrow> nat \<Rightarrow> 'a list list \<Rightarrow> 'a list \<times> 'a list list" where
  "split_loop identifiers limit chunks =
     (if 0 < limit \<and> limit \<le> length identifiers
      then split_loop (drop limit identifiers) limit (chunks @ [take limit identifiers])
      else (identifiers, chunks))"
  by pat_completeness auto
termination
  by (relation "measure (\<lambda>(identifiers, limit, chunks). length identifiers)") auto

declare split_loop.simps [simp del]

text \<open>
  \<open>split(identifiers, limit)\<close>. A negative limit is negated first; the negation of the
  smallest \<open>int\<close> is itself, still negative, and then \<open>identifiers[:limit]\<close> panics
  (the loop condition \<open>len(identifiers) >= limit\<close> holds for every length). A zero limit
  returns the one batch \<open>[identifiers]\<close>. Otherwise the loop cuts full chunks and a
  non-empty rest is appended as the last chunk.
\<close>

definition split :: "'a list \<Rightarrow> go_int \<Rightarrow> panic + 'a list list" where
  "split identifiers limit0 =
     (if \<not> sint limit0 < 0 \<and> limit0 = 0 then Inr [identifiers]
      else
        let limit = (if sint limit0 < 0 then - 1 * limit0 else limit0) in
        if sint limit < 0 then Inl SliceBoundsOutOfRange
        else
          (case split_loop identifiers (unat limit) [] of
             (rest, chunks) \<Rightarrow>
               Inr (if length rest > 0 then chunks @ [rest] else chunks)))"


section \<open>Package aws: resource types and the account inventory\<close>

text \<open>
  The resource kinds \<open>GetAllResources\<close> and \<open>ListResourceTypes\<close> name, in the
  order of the source. Each is a struct implementing the interface \<open>AwsResources\<close>
  (\<open>ResourceName\<close>, \<open>ResourceIdentifiers\<close>, \<open>MaxBatchSize\<close>, \<open>Nuke\<close>); the
  structs are declared in files that are not modelled here, so the constants
  \<open>ResourceName()\<close> and \<open>MaxBatchSize()\<close> are parameters of the model, as is
  \<open>eksSupportedRegion\<close>.
\<close>

datatype rtype =
    ASGroups | LaunchConfigs | LoadBalancers | LoadBalancersV2 | EC2Instances
  | EBSVolumes | EIPAddresses | AMIs | Snapshots | ECSServices | EKSClusters

text \<open>
  A value of the interface \<open>AwsResources\<close>: its kind, the identifiers it holds
  (\<open>ResourceIdentifiers()\<close>) and, for \<open>ECSServices\<close>, the service-to-cluster map.
\<close>

record AwsResources =
  kind :: rtype
  identifiers :: "string list"
  ServiceClusterMap :: "(string \<times> string) list"

record AwsRegionResource =
  Resources :: "AwsResources list"

text \<open>
  \<open>AwsAccountResources\<close> has the single field \<open>Resources map[string]AwsRegionResource\<close>.
  The map is kept as an association list with distinct keys (\<open>AList.update\<close> stores,
  \<open>map_of\<close> reads, \<open>length\<close> is \<open>len\<close>), so that an inventory can be compared and
  printed; the order of the keys carries no meaning.
\<close>

type_synonym AwsAccountResources = "(string \<times> AwsRegionResource) list"

text \<open>What a run of \<open>NukeAllResources\<close> does to the outside, in order.\<close>

datatype event =
    NukeCall string rtype "string list"  \<comment> \<open>\<open>resources.Nuke(session, batch)\<close> in a region\<close>
  | Sleep nat                            \<comment> \<open>\<open>time.Sleep\<close>, in seconds\<close>

text \<open>
  The outside world of package aws. Every provider call is a field: the answer of a
  list call depends on the kind, the region and the cutoff time; the answer of a delete
  call may depend on everything done before it (the events so far), so that a provider
  that refuses a batch once and accepts it on a later attempt can be written down.
  Times are integers (nanoseconds since the epoch).
\<close>

record world =
  ResourceName :: "rtype \<Rightarrow> string"
  MaxBatchSize :: "rtype \<Rightarrow> go_int"
  eksSupportedRegion :: "string \<Rightarrow> bool"
  NewSession :: "string \<Rightarrow> error option"
    \<comment> \<open>\<open>session.NewSession(&awsgo.Config{Region: region})\<close>: the error, if any\<close>
  listIdentifiers :: "rtype \<Rightarrow> string \<Rightarrow> int \<Rightarrow> error + string list"
    \<comment> \<open>\<open>getAllAutoScalingGroups(session, region, excludeAfter)\<close> and its siblings\<close>
  getAllEcsClusters :: "string \<Rightarrow> error + string list"
  getAllEcsServices :: "string \<Rightarrow> string list \<Rightarrow> int \<Rightarrow> error + string list \<times> (string \<times> string) list"
  Nuke :: "event list \<Rightarrow> string \<Rightarrow> AwsResources \<Rightarrow> string list \<Rightarrow> error option"
    \<comment> \<open>\<open>resources.Nuke(session, batch)\<close> after the events so far\<close>
  rnd :: "nat \<Rightarrow> nat"
    \<comment> \<open>the random source: the value behind the \<open>k\<close>-th call of \<open>rand.Intn\<close>\<close>
  NewSessionWithOptions :: "string \<Rightarrow> error option"
  DescribeRegions :: "nat \<Rightarrow> string \<Rightarrow> error + string list"
    \<comment> \<open>\<open>svc.DescribeRegions\<close> of the \<open>i\<close>-th attempt against a region: the region names\<close>

section \<open>Package aws: region enumeration\<close>










section \<open>Package aws: building the inventory (\<open>GetAllResources\<close>)\<close>


definition IsNukeable :: "string \<Rightarrow> string list \<Rightarrow> bool" where
  "IsNukeable resourceType resourceTypes =
     (if length resourceTypes = 0
         \<or> ListContainsElement resourceTypes ''all''
         \<or> ListContainsElement resourceTypes resourceType
      then True else False)"

text \<open>The kinds in the order the blocks of \<open>GetAllResources\<close> stand in the source.\<close>

definition resourceOrder :: "rtype list" where
  "resourceOrder =
     [ASGroups, LaunchConfigs, LoadBalancers, LoadBalancersV2, EC2Instances,
      EBSVolumes, EIPAddresses, AMIs, Snapshots, ECSServices, EKSClusters]"


text \<open>
  One block of \<open>GetAllResources\<close> for a kind: when the kind is nukeable its list call
  is made; an error of the call is returned wrapped, otherwise the kind is appended to
  \<open>resourcesInRegion.Resources\<close> with the identifiers listed, however many. The ECS
  block makes two calls; the EKS block is skipped outside the regions EKS supports.
\<close>

definition listBlock ::
  "world \<Rightarrow> rtype \<Rightarrow> string \<Rightarrow> int \<Rightarrow> string list \<Rightarrow> AwsResources list \<Rightarrow> error + AwsResources list" where
  "listBlock w t region excludeAfter resourceTypes resources =
     (if IsNukeable (ResourceName w t) resourceTypes then
        (case t of
           ECSServices \<Rightarrow>
             (case getAllEcsClusters w region of
                Inl err \<Rightarrow> Inl (WithStackTrace err)
              | Inr clusterArns \<Rightarrow>
                 (case getAllEcsServices w region clusterArns excludeAfter of
                    Inl err \<Rightarrow> Inl (WithStackTrace err)
                  | Inr (serviceArns, serviceClusterMap) \<Rightarrow>
                      Inr (resources @
                        [\<lparr>kind = ECSServices, identifiers = serviceArns,
                          ServiceClusterMap = serviceClusterMap\<rparr>])))
         | EKSClusters \<Rightarrow>
             (if eksSupportedRegion w region then
                (case listIdentifiers w EKSClusters region excludeAfter of
                   Inl err \<Rightarrow> Inl (WithStackTrace err)
                 | Inr eksClusterNames \<Rightarrow>
                     Inr (resources @
                       [\<lparr>kind = EKSClusters, identifiers = eksClusterNames,
                         ServiceClusterMap = []\<rparr>]))
              else Inr resources)
         | _ \<Rightarrow>
             (case listIdentifiers w t region excludeAfter of
                Inl err \<Rightarrow> Inl (WithStackTrace err)
              | Inr names \<Rightarrow>
                  Inr (resources @ [\<lparr>kind = t, identifiers = names, ServiceClusterMap = []\<rparr>])))
      else Inr resources)"

text \<open>The blocks one after the other; the first error ends the function.\<close>

fun listBlocks ::
  "world \<Rightarrow> rtype list \<Rightarrow> string \<Rightarrow> int \<Rightarrow> string list \<Rightarrow> AwsResources list \<Rightarrow> error + AwsResources list" where
  "listBlocks w [] region excludeAfter resourceTypes resources = Inr resources"
| "listBlocks w (t # ts) region excludeAfter resourceTypes resources =
     (case listBlock w t region excludeAfter resourceTypes resources of
        Inl err \<Rightarrow> Inl err
      | Inr resources' \<Rightarrow> listBlocks w ts region excludeAfter resourceTypes resources')"

text \<open>
  The loop over \<open>regions\<close>, with the account built so far. The Go result is the pair
  \<open>(*AwsAccountResources, error)\<close>: \<open>(nil, err)\<close> on any error, \<open>(&account, nil)\<close> at
  the end.
\<close>

fun GetAllResources_loop ::
  "world \<Rightarrow> string list \<Rightarrow> string list \<Rightarrow> int \<Rightarrow> string list \<Rightarrow> AwsAccountResources
     \<Rightarrow> AwsAccountResources option \<times> error option" where
  "GetAllResources_loop w [] excludedRegions excludeAfter resourceTypes account =
     (Some account, None)"
| "GetAllResources_loop w (region # regions) excludedRegions excludeAfter resourceTypes account =
     (if ListContainsElement excludedRegions region
      then GetAllResources_loop w regions excludedRegions excludeAfter resourceTypes account
      else
        (case NewSession w region of
           Some err \<Rightarrow> (None, Some (WithStackTrace err))
         | None \<Rightarrow>
            (case listBlocks w resourceOrder region excludeAfter resourceTypes [] of
               Inl err \<Rightarrow> (None, Some err)
             | Inr resources \<Rightarrow>
                 GetAllResources_loop w regions excludedRegions excludeAfter resourceTypes
                   (if length resources > 0
                    then AList.update region \<lparr>Resources = resources\<rparr> account
                    else account))))"

definition GetAllResources ::
  "world \<Rightarrow> string list \<Rightarrow> string list \<Rightarrow> int \<Rightarrow> string list
     \<Rightarrow> AwsAccountResources option \<times> error option" where
  "GetAllResources w regions excludedRegions excludeAfter resourceTypes =
     GetAllResources_loop w regions excludedRegions excludeAfter resourceTypes []"

text \<open>
  A list call of kind \<open>t\<close> is made in \<open>region\<close> and fails: for ECS either of its two
  calls, for EKS only where the region supports EKS (elsewhere no call is made).
\<close>

definition listCallFails :: "world \<Rightarrow> rtype \<Rightarrow> string \<Rightarrow> int \<Rightarrow> bool" where
  "listCallFails w t region excludeAfter =
     (case t of
        ECSServices \<Rightarrow>
          (case getAllEcsClusters w region of
             Inl err \<Rightarrow> True
           | Inr clusterArns \<Rightarrow> isl (getAllEcsServices w region clusterArns excludeAfter))
      | EKSClusters \<Rightarrow>
          eksSupportedRegion w region \<and> isl (listIdentifiers w EKSClusters region excludeAfter)
      | _ \<Rightarrow> isl (listIdentifiers w t region excludeAfter))"

section \<open>Package aws: deleting (\<open>NukeAllResources\<close>)\<close>

text \<open>
  The loop \<open>for i := 0; i < len(batches); i++\<close> from index \<open>i\<close>, with the events so
  far. Every path that stays in the loop runs the post statement \<open>i++\<close>: the end of
  the body and the \<open>continue\<close> after a \<open>RequestLimitExceeded\<close> error alike. Any other
  error is returned at once. \<open>Some err\<close> is that early return, \<open>None\<close> the end of the
  loop.
\<close>

function nukeBatches ::
  "world \<Rightarrow> string \<Rightarrow> AwsResources \<Rightarrow> string list list \<Rightarrow> nat \<Rightarrow> event list
     \<Rightarrow> error option \<times> event list" where
  "nukeBatches w region resources batches i log =
     (if i < length batches then
        let batch = batches ! i;
            called = log @ [NukeCall region (kind resources) batch] in
        (case Nuke w log region resources batch of
           Some err \<Rightarrow>
             (if Contains (Error err) ''RequestLimitExceeded''
              then nukeBatches w region resources batches (i + 1) (called @ [Sleep 60])
              else (Some (WithStackTrace err), called))
         | None \<Rightarrow>
             (if int i \<noteq> int (length batches) - 1
              then nukeBatches w region resources batches (i + 1) (called @ [Sleep 10])
              else nukeBatches w region resources batches (i + 1) called))
      else (None, log))"
  by pat_completeness auto
termination
  by (relation "measure (\<lambda>(w, region, resources, batches, i, log). length batches - i)") auto

declare nukeBatches.simps [simp del]

text \<open>
  The loop over the resources of one region. \<open>split\<close> may panic (its limit is the
  kind's \<open>MaxBatchSize()\<close>); an error of a batch ends the whole function.
\<close>

fun nukeResources ::
  "world \<Rightarrow> string \<Rightarrow> AwsResources list \<Rightarrow> event list \<Rightarrow> (panic + error option) \<times> event list" where
  "nukeResources w region [] log = (Inr None, log)"
| "nukeResources w region (resources # rest) log =
     (case split (identifiers resources) (MaxBatchSize w (kind resources)) of
        Inl p \<Rightarrow> (Inl p, log)
      | Inr batches \<Rightarrow>
         (case nukeBatches w region resources batches 0 log of
            (Some err, log') \<Rightarrow> (Inr (Some err), log')
          | (None, log') \<Rightarrow> nukeResources w region rest log'))"

text \<open>
  \<open>NukeAllResources(account, regions)\<close>, from the events so far. A region missing
  from \<open>account.Resources\<close> reads as the zero value, with no resources. The result is
  Go's single \<open>error\<close> (\<open>None\<close> for \<open>nil\<close>) or a panic, and the events.
\<close>

fun NukeAllResources ::
  "world \<Rightarrow> AwsAccountResources \<Rightarrow> string list \<Rightarrow> event list \<Rightarrow> (panic + error option) \<times> event list" where
  "NukeAllResources w account [] log = (Inr None, log)"
| "NukeAllResources w account (region # regions) log =
     (case NewSession w region of
        Some err \<Rightarrow> (Inr (Some (WithStackTrace err)), log)
      | None \<Rightarrow>
         (let resourcesInRegion =
            (case map_of account region of None \<Rightarrow> [] | Some r \<Rightarrow> Resources r) in
          (case nukeResources w region resourcesInRegion log of
             (Inr None, log') \<Rightarrow> NukeAllResources w account regions log'
           | (r, log') \<Rightarrow> (r, log'))))"


section \<open>Package commands: the \<open>aws\<close> command (\<open>awsNuke\<close>)\<close>










section \<open>Package gcp: listing instances (\<open>GetAllGceInstances\<close>)\<close>

text \<open>
  \<open>strings.Split(s, sep)\<close> for a separator of one byte, as the library computes it:
  up to the first separator, then the same on what follows it; a string without the
  separator is the one element.
\<close>

function Split :: "string \<Rightarrow> char \<Rightarrow> string list" where
  "Split s sep =
     (case dropWhile (\<lambda>c. c \<noteq> sep) s of
        [] \<Rightarrow> [s]
      | _ # rest \<Rightarrow> takeWhile (\<lambda>c. c \<noteq> sep) s # Split rest sep)"
  by pat_completeness auto
termination
proof (relation "measure (\<lambda>(s, sep). length s)")
  show "wf (measure (\<lambda>(s, sep). length s))" by simp
next
  fix s :: string and sep x21 x22
  assume "dropWhile (\<lambda>c. c \<noteq> sep) s = x21 # x22"
  then have "length (x21 # x22) \<le> length s"
    by (metis length_dropWhile_le)
  then show "((x22, sep), (s, sep)) \<in> measure (\<lambda>(s, sep). length s)" by simp
qed

declare Split.simps [simp del]

definition zoneFromUrl :: "string \<Rightarrow> error + string" where
  "zoneFromUrl url =
     (let split = Split url CHR ''/'' in
      if length split = 0 then Inl (Err (''got invalid zone url: '' @ url))
      else Inr (split ! (length split - 1)))"

text \<open>The fields of \<open>compute.Region\<close> and \<open>compute.Instance\<close> the code reads.\<close>

record Region =
  Region_Name :: string
  Region_Zones :: "string list"

record Instance =
  Instance_Name :: string
  Instance_Zone :: string
  DeletionProtection :: bool
  CreationTimestamp :: string

record GceInstanceResource =
  InstanceName :: string
  Zone :: string
  RegionName :: string

text \<open>
  \<open>GcpContext\<close>: the project, its regions and the answer of
  \<open>ctx.Service.Instances.AggregatedList(ctx.Project).Do()\<close>, whose \<open>Items\<close> (a map
  from scope to instances) are listed in the order the range loop visits them.
\<close>

record GcpContext =
  Project :: string
  Regions :: "Region list"
  AggregatedList :: "error + (string \<times> Instance list) list"

text \<open>
  \<open>regionFromZone\<close>: the inner loop over the zone urls of one region (\<open>Some name\<close>
  is the \<open>return region.Name, nil\<close>), and the outer loop over the regions.
\<close>

fun regionFromZone_zones :: "string \<Rightarrow> string list \<Rightarrow> string \<Rightarrow> error + string option" where
  "regionFromZone_zones name [] zone = Inr None"
| "regionFromZone_zones name (regionZoneUrl # urls) zone =
     (case zoneFromUrl regionZoneUrl of
        Inl err \<Rightarrow> Inl err
      | Inr regionZone \<Rightarrow>
          (if zone = regionZone then Inr (Some name)
           else regionFromZone_zones name urls zone))"

fun regionFromZone_regions :: "Region list \<Rightarrow> string \<Rightarrow> error + string" where
  "regionFromZone_regions [] zone = Inl (Err (''could not get region for zone: '' @ zone))"
| "regionFromZone_regions (region # regions) zone =
     (case regionFromZone_zones (Region_Name region) (Region_Zones region) zone of
        Inl err \<Rightarrow> Inl err
      | Inr (Some name) \<Rightarrow> Inr name
      | Inr None \<Rightarrow> regionFromZone_regions regions zone)"

definition regionFromZone :: "GcpContext \<Rightarrow> string \<Rightarrow> error + string" where
  "regionFromZone ctx zone = regionFromZone_regions (Regions ctx) zone"

text \<open>
  The loop under the comment \<open>skip if the region is excluded\<close>:
  \<^verbatim>\<open>for _, excludedRegion := range excludedRegions {
      if region == excludedRegion { continue } }\<close>
  Its \<open>continue\<close> belongs to this loop itself, so both branches go on with the next
  excluded region and the loop ends without having changed or decided anything.
\<close>

fun excludedRegions_loop :: "string \<Rightarrow> string list \<Rightarrow> unit" where
  "excludedRegions_loop region [] = ()"
| "excludedRegions_loop region (excludedRegion # rest) =
     (if region = excludedRegion then excludedRegions_loop region rest
      else excludedRegions_loop region rest)"

text \<open>
  The loop over the instances of one item, with the instances collected so far. The
  loop over the excluded regions is run where the source runs it; it has no result that
  the rest of the body could read. \<open>Parse\<close> stands for \<open>time.Parse(time.RFC3339, _)\<close>; \<open>creationTime.After\<close> is
  strictly later.
\<close>

fun GetAllGceInstances_instances ::
  "(string \<Rightarrow> error + int) \<Rightarrow> GcpContext \<Rightarrow> string list \<Rightarrow> int \<Rightarrow> Instance list
     \<Rightarrow> GceInstanceResource list \<Rightarrow> error + GceInstanceResource list" where
  "GetAllGceInstances_instances Parse ctx excludedRegions excludeAfter [] instances = Inr instances"
| "GetAllGceInstances_instances Parse ctx excludedRegions excludeAfter (apiInstance # rest) instances =
     (if DeletionProtection apiInstance
      then GetAllGceInstances_instances Parse ctx excludedRegions excludeAfter rest instances
      else
        (case zoneFromUrl (Instance_Zone apiInstance) of
           Inl err \<Rightarrow> Inl err
         | Inr zone \<Rightarrow>
            (case regionFromZone ctx zone of
               Inl err \<Rightarrow> Inl err
             | Inr region \<Rightarrow>
                (let skipped = excludedRegions_loop region excludedRegions in
                    (case Parse (CreationTimestamp apiInstance) of
                       Inl err \<Rightarrow> Inl err
                     | Inr creationTime \<Rightarrow>
                        (if creationTime > excludeAfter
                         then GetAllGceInstances_instances Parse ctx excludedRegions excludeAfter
                                rest instances
                         else GetAllGceInstances_instances Parse ctx excludedRegions excludeAfter
                                rest
                                (instances @
                                  [\<lparr>InstanceName = Instance_Name apiInstance, Zone = zone,
                                    RegionName = region\<rparr>])))))))"

fun GetAllGceInstances_items ::
  "(string \<Rightarrow> error + int) \<Rightarrow> GcpContext \<Rightarrow> string list \<Rightarrow> int \<Rightarrow> (string \<times> Instance list) list
     \<Rightarrow> GceInstanceResource list \<Rightarrow> error + GceInstanceResource list" where
  "GetAllGceInstances_items Parse ctx excludedRegions excludeAfter [] instances = Inr instances"
| "GetAllGceInstances_items Parse ctx excludedRegions excludeAfter (item # items) instances =
     (case GetAllGceInstances_instances Parse ctx excludedRegions excludeAfter (snd item) instances of
        Inl err \<Rightarrow> Inl err
      | Inr instances' \<Rightarrow>
          GetAllGceInstances_items Parse ctx excludedRegions excludeAfter items instances')"

definition GetAllGceInstances ::
  "(string \<Rightarrow> error + int) \<Rightarrow> GcpContext \<Rightarrow> string list \<Rightarrow> int \<Rightarrow> error + GceInstanceResource list" where
  "GetAllGceInstances Parse ctx excludedRegions excludeAfter =
     (case AggregatedList ctx of
        Inl err \<Rightarrow> Inl err
      | Inr items \<Rightarrow> GetAllGceInstances_items Parse ctx excludedRegions excludeAfter items [])"


text \<open>
  The resource \<open>r\<close> is what the code builds from the instance \<open>a\<close>, and \<open>a\<close> is
  neither protected nor created after the cutoff.
\<close>

definition eligible :: "(string \<Rightarrow> error + int) \<Rightarrow> GcpContext \<Rightarrow> int \<Rightarrow> Instance \<Rightarrow> GceInstanceResource \<Rightarrow> bool" where
  "eligible Parse ctx excludeAfter a r =
     (\<not> DeletionProtection a \<and> InstanceName r = Instance_Name a
      \<and> zoneFromUrl (Instance_Zone a) = Inr (Zone r)
      \<and> regionFromZone ctx (Zone r) = Inr (RegionName r)
      \<and> (\<exists>creationTime. Parse (CreationTimestamp a) = Inr creationTime
            \<and> creationTime \<le> excludeAfter))"

section \<open>Sample inputs\<close>

text \<open>
  Concrete inputs on which the definitions above are evaluated. The names of the
  resource types are those \<open>--list-resource-types\<close> prints (the README shows
  \<open>ec2\<close> and \<open>ami\<close>); the batch sizes are examples.
\<close>

definition widgets :: "string list" where
  "widgets =
     [''w01'', ''w02'', ''w03'', ''w04'', ''w05'', ''w06'', ''w07'', ''w08'', ''w09'', ''w10'',
      ''w11'', ''w12'', ''w13'', ''w14'', ''w15'', ''w16'', ''w17'', ''w18'', ''w19'', ''w20'',
      ''w21'', ''w22'', ''w23'', ''w24'', ''w25'']"

text \<open>
  A project with two regions and three instances: \<open>vm-1\<close> (old, unprotected) and
  \<open>vm-2\<close> (protected) in \<open>us-central1\<close>, \<open>vm-3\<close> (created after the cutoff used
  below) in \<open>europe-west1\<close>. \<open>sampleParse\<close> reads the two timestamps that occur, in
  seconds.
\<close>

definition sampleParse :: "string \<Rightarrow> error + int" where
  "sampleParse s =
     (if s = ''2019-01-01T00:00:00Z'' then Inr 1546300800
      else if s = ''2019-03-01T00:00:00Z'' then Inr 1551398400
      else Inl (Err ''parsing time''))"

definition sampleCtx :: GcpContext where
  "sampleCtx =
     \<lparr>Project = ''p'',
      Regions = [\<lparr>Region_Name = ''us-central1'', Region_Zones = [''p/zones/us-central1-a'']\<rparr>,
                 \<lparr>Region_Name = ''europe-west1'', Region_Zones = [''p/zones/europe-west1-b'']\<rparr>],
      AggregatedList = Inr
        [(''zones/us-central1-a'',
           [\<lparr>Instance_Name = ''vm-1'', Instance_Zone = ''p/zones/us-central1-a'',
              DeletionProtection = False, CreationTimestamp = ''2019-01-01T00:00:00Z''\<rparr>,
            \<lparr>Instance_Name = ''vm-2'', Instance_Zone = ''p/zones/us-central1-a'',
              DeletionProtection = True, CreationTimestamp = ''2019-01-01T00:00:00Z''\<rparr>]),
         (''zones/europe-west1-b'',
           [\<lparr>Instance_Name = ''vm-3'', Instance_Zone = ''p/zones/europe-west1-b'',
              DeletionProtection = False, CreationTimestamp = ''2019-03-01T00:00:00Z''\<rparr>])]\<rparr>"

definition sampleNames :: "rtype \<Rightarrow> string" where
  "sampleNames t =
     (case t of
        ASGroups \<Rightarrow> ''asg'' | LaunchConfigs \<Rightarrow> ''lc'' | LoadBalancers \<Rightarrow> ''elb''
      | LoadBalancersV2 \<Rightarrow> ''elbv2'' | EC2Instances \<Rightarrow> ''ec2'' | EBSVolumes \<Rightarrow> ''ebs''
      | EIPAddresses \<Rightarrow> ''eip'' | AMIs \<Rightarrow> ''ami'' | Snapshots \<Rightarrow> ''snap''
      | ECSServices \<Rightarrow> ''ecsserv'' | EKSClusters \<Rightarrow> ''ekscluster'')"

text \<open>
  A provider where every call succeeds: list calls find nothing, delete calls return
  nil, the first random draw probes \<open>eu-north-1\<close>, which answers with two regions.
\<close>

definition quietWorld :: world where
  "quietWorld =
     \<lparr>ResourceName = sampleNames,
      MaxBatchSize = (\<lambda>t. 1),
      eksSupportedRegion = (\<lambda>region. region = ''us-east-1''),
      NewSession = (\<lambda>region. None),
      listIdentifiers = (\<lambda>t region excludeAfter. Inr []),
      getAllEcsClusters = (\<lambda>region. Inr []),
      getAllEcsServices = (\<lambda>region clusterArns excludeAfter. Inr ([], [])),
      Nuke = (\<lambda>log region resources batch. None),
      rnd = (\<lambda>k. 0),
      NewSessionWithOptions = (\<lambda>region. None),
      DescribeRegions = (\<lambda>i region. Inr [''us-east-1'', ''us-west-2''])\<rparr>"

text \<open>An inventory: two kinds in \<open>us-east-1\<close>, one in \<open>us-west-2\<close>.\<close>

definition sampleAccount :: AwsAccountResources where
  "sampleAccount =
     [(''us-east-1'',
        \<lparr>Resources =
          [\<lparr>kind = EC2Instances, identifiers = [''i-1'', ''i-2''], ServiceClusterMap = []\<rparr>,
           \<lparr>kind = EBSVolumes, identifiers = [''vol-1''], ServiceClusterMap = []\<rparr>]\<rparr>),
      (''us-west-2'',
        \<lparr>Resources =
          [\<lparr>kind = EC2Instances, identifiers = [''i-3''], ServiceClusterMap = []\<rparr>]\<rparr>)]"

text \<open>
  The same with an auto-scaling group listed before the instances of \<open>us-east-1\<close>.
\<close>

definition laterAccount :: AwsAccountResources where
  "laterAccount =
     [(''us-east-1'',
        \<lparr>Resources =
          [\<lparr>kind = ASGroups, identifiers = [''asg-1''], ServiceClusterMap = []\<rparr>,
           \<lparr>kind = EC2Instances, identifiers = [''i-1'', ''i-2''], ServiceClusterMap = []\<rparr>,
           \<lparr>kind = EBSVolumes, identifiers = [''vol-1''], ServiceClusterMap = []\<rparr>]\<rparr>),
      (''us-west-2'',
        \<lparr>Resources =
          [\<lparr>kind = EC2Instances, identifiers = [''i-3''], ServiceClusterMap = []\<rparr>]\<rparr>)]"

text \<open>The delete call for the batch \<open>[i-1]\<close> fails with an error that is not a rate limit.\<close>

definition refusingWorld :: world where
  "refusingWorld =
     quietWorld\<lparr>Nuke := (\<lambda>log region resources batch.
        if batch = [''i-1''] then Some (Err ''UnauthorizedOperation: not allowed'') else None)\<rparr>"

text \<open>
  The delete call for the batch \<open>[i-1]\<close> is rate-limited the first time it is made
  and would succeed on any later attempt.
\<close>

definition throttledWorld :: world where
  "throttledWorld =
     quietWorld\<lparr>Nuke := (\<lambda>log region resources batch.
        if batch = [''i-1''] \<and> NukeCall region (kind resources) batch \<notin> set log
        then Some (Err ''RequestLimitExceeded: Request limit exceeded.'') else None)\<rparr>"

text \<open>The list call for EBS volumes fails in \<open>us-west-2\<close>; every other call finds one resource.\<close>

definition failingListWorld :: world where
  "failingListWorld =
     quietWorld\<lparr>listIdentifiers := (\<lambda>t region excludeAfter.
        if t = EBSVolumes \<and> region = ''us-west-2'' then Inl (Err ''AuthFailure'')
        else Inr [''x''])\<rparr>"







section \<open>Properties of \<open>split\<close>\<close>

lemma split_loop_step:
  "0 < limit \<Longrightarrow> limit \<le> length ids \<Longrightarrow>
   split_loop ids limit chunks = split_loop (drop limit ids) limit (chunks @ [take limit ids])"
  by (subst split_loop.simps) (simp only: simp_thms if_True)

lemma split_loop_stop:
  "\<not> (0 < limit \<and> limit \<le> length ids) \<Longrightarrow> split_loop ids limit chunks = (ids, chunks)"
  by (subst split_loop.simps) (simp only: if_False)

lemma split_loop_concat:
  "concat (snd (split_loop ids n acc)) @ fst (split_loop ids n acc) = concat acc @ ids"
proof (induction ids n acc rule: split_loop.induct)
  case (1 identifiers limit chunks)
  show ?case
  proof (cases "0 < limit \<and> limit \<le> length identifiers")
    case True
    then have eq: "split_loop identifiers limit chunks
        = split_loop (drop limit identifiers) limit (chunks @ [take limit identifiers])"
      by (intro split_loop_step) simp_all
    from "1.IH" [OF True] show ?thesis unfolding eq by simp
  next
    case False
    then have "split_loop identifiers limit chunks = (identifiers, chunks)"
      by (rule split_loop_stop)
    then show ?thesis by simp
  qed
qed

lemma split_loop_bounded:
  "\<forall>c \<in> set acc. length c \<le> n \<Longrightarrow> \<forall>c \<in> set (snd (split_loop ids n acc)). length c \<le> n"
proof (induction ids n acc rule: split_loop.induct)
  case (1 identifiers limit chunks)
  show ?case
  proof (cases "0 < limit \<and> limit \<le> length identifiers")
    case True
    then have eq: "split_loop identifiers limit chunks
        = split_loop (drop limit identifiers) limit (chunks @ [take limit identifiers])"
      by (intro split_loop_step) simp_all
    have "\<forall>c \<in> set (chunks @ [take limit identifiers]). length c \<le> limit"
      using "1.prems" by simp
    from "1.IH" [OF True this] show ?thesis unfolding eq .
  next
    case False
    then have "split_loop identifiers limit chunks = (identifiers, chunks)"
      by (rule split_loop_stop)
    with "1.prems" show ?thesis by simp
  qed
qed

lemma split_loop_rest:
  "0 < n \<Longrightarrow> length (fst (split_loop ids n acc)) < n"
proof (induction ids n acc rule: split_loop.induct)
  case (1 identifiers limit chunks)
  show ?case
  proof (cases "0 < limit \<and> limit \<le> length identifiers")
    case True
    then have eq: "split_loop identifiers limit chunks
        = split_loop (drop limit identifiers) limit (chunks @ [take limit identifiers])"
      by (intro split_loop_step) simp_all
    from "1.IH" [OF True "1.prems"] show ?thesis unfolding eq .
  next
    case False
    then have "split_loop identifiers limit chunks = (identifiers, chunks)"
      by (rule split_loop_stop)
    with False "1.prems" show ?thesis by simp
  qed
qed

lemma split_positive:
  assumes "0 < sint n"
  shows "split ids n =
     Inr (let r = split_loop ids (unat n) [] in if fst r = [] then snd r else snd r @ [fst r])"
proof -
  from assms have nz: "n \<noteq> 0" by auto
  from assms have nn: "\<not> sint n < 0" by simp
  obtain rest chunks where r: "split_loop ids (unat n) [] = (rest, chunks)"
    by (cases "split_loop ids (unat n) []")
  have "split ids n = Inr (if length rest > 0 then chunks @ [rest] else chunks)"
    unfolding split_def using nz nn r by (simp only: Let_def if_False simp_thms prod.case)
  then show ?thesis using r by (simp add: Let_def)
qed

lemma split_positive_props:
  assumes "0 < sint n"
  shows "\<exists>bs. split ids n = Inr bs \<and> concat bs = ids \<and> (\<forall>b \<in> set bs. length b \<le> unat n)"
proof -
  let ?r = "split_loop ids (unat n) []"
  from assms have "n \<noteq> 0" by auto
  then have pos: "0 < unat n" by (simp add: unat_gt_0)
  have c: "concat (snd ?r) @ fst ?r = ids" using split_loop_concat [of ids "unat n" "[]"] by simp
  have b: "\<forall>c \<in> set (snd ?r). length c \<le> unat n" by (rule split_loop_bounded) simp
  have r: "length (fst ?r) < unat n" using pos by (rule split_loop_rest)
  show ?thesis
    using c b r by (auto simp: split_positive [OF assms] Let_def)
qed


lemma split_25_10:
  assumes "length ids = 25"
  shows "split ids 10 = Inr [take 10 ids, take 10 (drop 10 ids), drop 20 ids]"
proof -
  have s1: "split_loop ids 10 [] = split_loop (drop 10 ids) 10 [take 10 ids]"
    using assms split_loop_step [of 10 ids "[]"] by simp
  have s2: "split_loop (drop 10 ids) 10 [take 10 ids]
      = split_loop (drop 20 ids) 10 [take 10 ids, take 10 (drop 10 ids)]"
    using assms split_loop_step [of 10 "drop 10 ids" "[take 10 ids]"] by simp
  have s3: "split_loop (drop 20 ids) 10 [take 10 ids, take 10 (drop 10 ids)]
      = (drop 20 ids, [take 10 ids, take 10 (drop 10 ids)])"
    using assms by (intro split_loop_stop) simp
  have "split_loop ids (unat (10 :: go_int)) [] = (drop 20 ids, [take 10 ids, take 10 (drop 10 ids)])"
    using s1 s2 s3 by simp
  moreover have "drop 20 ids \<noteq> []" using assms by simp
  moreover have "0 < sint (10 :: go_int)" by simp
  ultimately show ?thesis by (simp add: split_positive Let_def)
qed

lemma split_zero: "split ids 0 = Inr [ids]"
  by (simp add: split_def)

lemma split_negative:
  assumes "sint limit < 0" "0 < sint (- limit)"
  shows "split ids limit = split ids (- limit)"
proof -
  from assms have nz: "limit \<noteq> 0" "- limit \<noteq> 0" by auto
  from assms have nn: "\<not> sint (- limit) < 0" by simp
  show ?thesis
    unfolding split_def using assms(1) nz nn by (simp add: Let_def)
qed

lemma split_smallest:
  assumes "sint limit < 0" "\<not> 0 < sint (- limit)"
  shows "split ids limit = Inl SliceBoundsOutOfRange"
proof -
  from assms(1) have nz: "limit \<noteq> 0" by auto
  then have "- limit \<noteq> 0" by simp
  then have "sint (- limit) \<noteq> 0" by (simp add: signed_eq_0_iff)
  with assms(2) have "sint (- limit) < 0" by simp
  then show ?thesis
    unfolding split_def using assms(1) nz by (simp add: Let_def)
qed

text \<open>
  C6. For every identifier list and every \<open>n > 0\<close> the batches of \<open>split(ids, n)\<close>
  concatenate to \<open>ids\<close> and each has at most \<open>n\<close> identifiers; \<open>split(ids, 0)\<close> is
  the single batch \<open>[ids]\<close>; 25 identifiers with \<open>n = 10\<close> give exactly three batches,
  of 10, 10 and 5.
\<close>

theorem split_concat_bounded:
  "(0 < sint n \<longrightarrow>
      (\<exists>bs. split ids n = Inr bs \<and> concat bs = ids \<and> (\<forall>b \<in> set bs. length b \<le> unat n)))
   \<and> split ids 0 = Inr [ids]
   \<and> (length ids = 25 \<longrightarrow>
      (\<exists>b1 b2 b3. split ids 10 = Inr [b1, b2, b3]
         \<and> length b1 = 10 \<and> length b2 = 10 \<and> length b3 = 5))"
proof (intro conjI impI)
  assume "0 < sint n"
  then show "\<exists>bs. split ids n = Inr bs \<and> concat bs = ids \<and> (\<forall>b \<in> set bs. length b \<le> unat n)"
    by (rule split_positive_props)
next
  show "split ids 0 = Inr [ids]" by (rule split_zero)
next
  assume l: "length ids = 25"
  have "split ids 10 = Inr [take 10 ids, take 10 (drop 10 ids), drop 20 ids]"
    using l by (rule split_25_10)
  moreover have "length (take 10 ids) = 10" "length (take 10 (drop 10 ids)) = 10"
    "length (drop 20 ids) = 5" using l by simp_all
  ultimately show "\<exists>b1 b2 b3. split ids 10 = Inr [b1, b2, b3]
         \<and> length b1 = 10 \<and> length b2 = 10 \<and> length b3 = 5" by blast
qed

theorem split_concat_bounded_witness:
  "0 < sint (10 :: go_int) \<and> length widgets = 25
   \<and> (\<exists>bs. split widgets 10 = Inr bs \<and> concat bs = widgets \<and> list_all (\<lambda>b. length b \<le> 10) bs)
   \<and> (\<exists>b1 b2 b3. split widgets 10 = Inr [b1, b2, b3]
         \<and> length b1 = 10 \<and> length b2 = 10 \<and> length b3 = 5)"
proof -
  have h: "0 < sint (10 :: go_int)" by simp
  have l: "length widgets = 25" by (simp add: widgets_def)
  from split_concat_bounded [of 10 widgets] h l show ?thesis
    by (simp add: list_all_iff)
qed

text \<open>
  C5, as the code has it. A limit of exactly 0 gives the single batch \<open>[ids]\<close>. A
  negative limit is not "no limit": it is negated, so \<open>split(ids, limit)\<close> is
  \<open>split(ids, -limit)\<close>, batches of at most \<open>|limit|\<close> identifiers that concatenate to
  \<open>ids\<close>; at the smallest \<open>int\<close>, whose negation is itself, the slice expression
  panics.
\<close>

theorem split_nonpositive:
  "(limit = 0 \<longrightarrow> split ids limit = Inr [ids])
   \<and> (sint limit < 0 \<and> 0 < sint (- limit) \<longrightarrow>
        split ids limit = split ids (- limit)
        \<and> (\<exists>bs. split ids limit = Inr bs \<and> concat bs = ids
              \<and> (\<forall>b \<in> set bs. length b \<le> unat (- limit))))
   \<and> (sint limit < 0 \<and> \<not> 0 < sint (- limit) \<longrightarrow> split ids limit = Inl SliceBoundsOutOfRange)"
proof (intro conjI impI)
  assume "limit = 0"
  then show "split ids limit = Inr [ids]" by (simp add: split_zero)
next
  assume a: "sint limit < 0 \<and> 0 < sint (- limit)"
  then show "split ids limit = split ids (- limit)" by (simp add: split_negative)
  from a have "split ids limit = split ids (- limit)" by (simp add: split_negative)
  with split_positive_props [of "- limit" ids] a
  show "\<exists>bs. split ids limit = Inr bs \<and> concat bs = ids
              \<and> (\<forall>b \<in> set bs. length b \<le> unat (- limit))" by simp
next
  assume "sint limit < 0 \<and> \<not> 0 < sint (- limit)"
  then show "split ids limit = Inl SliceBoundsOutOfRange" by (simp add: split_smallest)
qed

theorem split_nonpositive_witness:
  "sint (- 2 :: go_int) < 0 \<and> 0 < sint (- (- 2) :: go_int)
   \<and> split [''a'', ''b'', ''c'', ''d'', ''e''] (- 2) = split [''a'', ''b'', ''c'', ''d'', ''e''] 2
   \<and> split [''a'', ''b'', ''c'', ''d'', ''e''] (- 2) = Inr [[''a'', ''b''], [''c'', ''d''], [''e'']]
   \<and> split [''a'', ''b'', ''c'', ''d'', ''e''] 0 = Inr [[''a'', ''b'', ''c'', ''d'', ''e'']]
   \<and> sint (- 9223372036854775808 :: go_int) < 0
   \<and> \<not> 0 < sint (- (- 9223372036854775808) :: go_int)
   \<and> split [''a'', ''b'', ''c'', ''d'', ''e''] (- 9223372036854775808) = Inl SliceBoundsOutOfRange"
proof -
  have h: "sint (- 2 :: go_int) < 0 \<and> 0 < sint (- (- 2) :: go_int)" by simp
  have e: "split [''a'', ''b'', ''c'', ''d'', ''e''] (2 :: go_int)
      = Inr [[''a'', ''b''], [''c'', ''d''], [''e'']]" by code_simp
  have m: "sint (- 9223372036854775808 :: go_int) < 0
      \<and> \<not> 0 < sint (- (- 9223372036854775808) :: go_int)" by simp
  from split_nonpositive [of "- 2" "[''a'', ''b'', ''c'', ''d'', ''e'']"]
    split_nonpositive [of 0 "[''a'', ''b'', ''c'', ''d'', ''e'']"]
    split_nonpositive [of "- 9223372036854775808" "[''a'', ''b'', ''c'', ''d'', ''e'']"]
    h e m show ?thesis by simp
qed

theorem split_negative_counterexample:
  "sint (- 1 :: go_int) \<le> 0
   \<and> split [''a'', ''b'', ''c''] (- 1) = Inr [[''a''], [''b''], [''c'']]
   \<and> split [''a'', ''b'', ''c''] (- 1) \<noteq> Inr [[''a'', ''b'', ''c'']]"
proof -
  have "split [''a'', ''b'', ''c''] (- 1 :: go_int) = Inr [[''a''], [''b''], [''c'']]"
    by code_simp
  then show ?thesis by simp
qed

section \<open>Properties of \<open>zoneFromUrl\<close> and \<open>GetAllGceInstances\<close>\<close>

lemma Split_no_sep:
  "dropWhile (\<lambda>c. c \<noteq> sep) s = [] \<Longrightarrow> Split s sep = [s]"
  by (subst Split.simps) (simp only: list.case)

lemma Split_sep:
  "dropWhile (\<lambda>c. c \<noteq> sep) s = x # rest \<Longrightarrow>
   Split s sep = takeWhile (\<lambda>c. c \<noteq> sep) s # Split rest sep"
  by (subst Split.simps) (simp only: list.case)

lemma Split_nonempty: "Split s sep \<noteq> []"
  by (cases "dropWhile (\<lambda>c. c \<noteq> sep) s") (simp_all add: Split_no_sep Split_sep)

lemma takeWhile_append_stop:
  "\<not> P y \<Longrightarrow> takeWhile P (xs @ y # ys) = takeWhile P xs"
  by (induction xs) simp_all

lemma last_Split:
  "last (Split s sep) = rev (takeWhile (\<lambda>c. c \<noteq> sep) (rev s))"
proof (induction s sep rule: Split.induct)
  case (1 s sep)
  show ?case
  proof (cases "dropWhile (\<lambda>c. c \<noteq> sep) s")
    case Nil
    then have all: "\<forall>c \<in> set s. c \<noteq> sep" by (simp add: dropWhile_eq_Nil_conv)
    then have tw: "takeWhile (\<lambda>c. c \<noteq> sep) (rev s) = rev s"
      by (simp add: takeWhile_eq_all_conv)
    have sp: "Split s sep = [s]" using Nil by (rule Split_no_sep)
    show ?thesis unfolding sp tw by simp
  next
    case (Cons x rest)
    then have x: "x = sep" by (metis (mono_tags, lifting) hd_dropWhile list.sel(1) list.distinct(1))
    have s: "s = takeWhile (\<lambda>c. c \<noteq> sep) s @ sep # rest"
      using Cons x by (metis takeWhile_dropWhile_id)
    have "rev s = rev rest @ sep # rev (takeWhile (\<lambda>c. c \<noteq> sep) s)"
      by (subst s) simp
    then have "takeWhile (\<lambda>c. c \<noteq> sep) (rev s) = takeWhile (\<lambda>c. c \<noteq> sep) (rev rest)"
      by (simp add: takeWhile_append_stop)
    moreover have "last (Split s sep) = last (Split rest sep)"
      using Cons by (simp add: Split_sep Split_nonempty)
    ultimately show ?thesis using "1.IH" [OF Cons] by simp
  qed
qed

lemma zoneFromUrl_eq:
  "zoneFromUrl url = Inr (rev (takeWhile (\<lambda>c. c \<noteq> CHR ''/'') (rev url)))"
proof -
  have "Split url CHR ''/'' \<noteq> []" by (rule Split_nonempty)
  then have "zoneFromUrl url = Inr (last (Split url CHR ''/''))"
    by (simp add: zoneFromUrl_def Let_def last_conv_nth)
  then show ?thesis by (simp add: last_Split)
qed

text \<open>
  C10. For every string \<open>url\<close>, \<open>zoneFromUrl\<close> returns the part of \<open>url\<close> after its
  last \<open>/\<close> (all of \<open>url\<close> when it has none) and never its error: \<open>Split\<close> always
  yields at least one element.
\<close>

theorem zoneFromUrl_last_segment:
  "zoneFromUrl url = Inr (rev (takeWhile (\<lambda>c. c \<noteq> CHR ''/'') (rev url)))
   \<and> (\<exists>pre z. zoneFromUrl url = Inr z \<and> url = pre @ z \<and> CHR ''/'' \<notin> set z
         \<and> (pre = [] \<or> last pre = CHR ''/''))"
proof
  show "zoneFromUrl url = Inr (rev (takeWhile (\<lambda>c. c \<noteq> CHR ''/'') (rev url)))"
    by (rule zoneFromUrl_eq)
next
  let ?P = "\<lambda>c. c \<noteq> CHR ''/''"
  let ?z = "rev (takeWhile ?P (rev url))"
  let ?pre = "rev (dropWhile ?P (rev url))"
  have "url = ?pre @ ?z"
    by (metis rev_append rev_rev_ident takeWhile_dropWhile_id)
  moreover have "CHR ''/'' \<notin> set ?z"
    by (auto dest: set_takeWhileD)
  moreover have "?pre = [] \<or> last ?pre = CHR ''/''"
  proof (cases "dropWhile ?P (rev url)")
    case Nil
    then show ?thesis by simp
  next
    case (Cons x xs)
    then have "x = CHR ''/''" by (metis (mono_tags, lifting) hd_dropWhile list.sel(1) list.distinct(1))
    with Cons show ?thesis by simp
  qed
  ultimately show "\<exists>pre z. zoneFromUrl url = Inr z \<and> url = pre @ z \<and> CHR ''/'' \<notin> set z
         \<and> (pre = [] \<or> last pre = CHR ''/'')"
    using zoneFromUrl_eq by blast
qed

lemma excludedRegions_ignored:
  "GetAllGceInstances_instances Parse ctx excludedRegions excludeAfter xs acc
   = GetAllGceInstances_instances Parse ctx [] excludeAfter xs acc"
  by (induction xs arbitrary: acc) (simp_all add: Let_def split: sum.splits)


lemma excludedRegions_ignored_items:
  "GetAllGceInstances_items Parse ctx excludedRegions excludeAfter items acc
   = GetAllGceInstances_items Parse ctx [] excludeAfter items acc"
  by (induction items arbitrary: acc)
     (simp_all add: excludedRegions_ignored [of _ _ excludedRegions] split: sum.splits)

text \<open>
  The two filters that work: every resource returned comes from an instance that is
  not protected and was not created after the cutoff.
\<close>

lemma GetAllGceInstances_instances_filtered:
  "GetAllGceInstances_instances Parse ctx excludedRegions excludeAfter xs acc = Inr out \<Longrightarrow>
   r \<in> set out \<Longrightarrow>
   r \<in> set acc \<or> (\<exists>a \<in> set xs. eligible Parse ctx excludeAfter a r)"
proof (induction xs arbitrary: acc)
  case Nil
  then show ?case by simp
next
  case (Cons a xs)
  show ?case
  proof (cases "DeletionProtection a")
    case True
    with Cons.prems have "GetAllGceInstances_instances Parse ctx excludedRegions excludeAfter xs acc = Inr out"
      by simp
    from Cons.IH [OF this Cons.prems(2)] show ?thesis by auto
  next
    case False
    from Cons.prems(1) False obtain zone region creationTime where
      z: "zoneFromUrl (Instance_Zone a) = Inr zone" and
      g: "regionFromZone ctx zone = Inr region" and
      c: "Parse (CreationTimestamp a) = Inr creationTime"
      by (auto simp: Let_def split: sum.splits)
    show ?thesis
    proof (cases "creationTime > excludeAfter")
      case True
      with Cons.prems(1) False z g c
      have "GetAllGceInstances_instances Parse ctx excludedRegions excludeAfter xs acc = Inr out"
        by (simp add: Let_def)
      from Cons.IH [OF this Cons.prems(2)] show ?thesis by auto
    next
      case late: False
      let ?new = "\<lparr>InstanceName = Instance_Name a, Zone = zone, RegionName = region\<rparr>"
      from Cons.prems(1) False z g c late
      have "GetAllGceInstances_instances Parse ctx excludedRegions excludeAfter xs (acc @ [?new]) = Inr out"
        by (simp add: Let_def)
      from Cons.IH [OF this Cons.prems(2)]
      have "r \<in> set acc \<or> r = ?new \<or> (\<exists>a \<in> set xs. eligible Parse ctx excludeAfter a r)" by auto
      moreover have "eligible Parse ctx excludeAfter a ?new"
        using False z g c late by (simp add: eligible_def)
      ultimately show ?thesis by auto
    qed
  qed
qed

lemma GetAllGceInstances_items_filtered:
  "GetAllGceInstances_items Parse ctx excludedRegions excludeAfter items acc = Inr out \<Longrightarrow>
   r \<in> set out \<Longrightarrow>
   r \<in> set acc \<or> (\<exists>item \<in> set items. \<exists>a \<in> set (snd item). eligible Parse ctx excludeAfter a r)"
proof (induction items arbitrary: acc)
  case Nil
  then show ?case by simp
next
  case (Cons item items)
  from Cons.prems(1) obtain mid where
    m: "GetAllGceInstances_instances Parse ctx excludedRegions excludeAfter (snd item) acc = Inr mid"
    and n: "GetAllGceInstances_items Parse ctx excludedRegions excludeAfter items mid = Inr out"
    by (auto split: sum.splits)
  from Cons.IH [OF n Cons.prems(2)] GetAllGceInstances_instances_filtered [OF m]
  show ?case by auto
qed

lemma GetAllGceInstances_filters:
  assumes "GetAllGceInstances Parse ctx excludedRegions excludeAfter = Inr out" "r \<in> set out"
    "AggregatedList ctx = Inr items"
  shows "\<exists>item \<in> set items. \<exists>a \<in> set (snd item). eligible Parse ctx excludeAfter a r"
  using assms GetAllGceInstances_items_filtered [of Parse ctx excludedRegions excludeAfter items "[]" out r]
  by (simp add: GetAllGceInstances_def)

text \<open>
  C3, at a failing input. The instance \<open>vm-1\<close> is in \<open>us-central1\<close>, which is
  excluded; it is not protected and was created before the cutoff, and the code returns
  it. The protected \<open>vm-2\<close> and \<open>vm-3\<close>, created after the cutoff, are left out. In
  general the excluded regions have no influence on the result.
\<close>

theorem GetAllGceInstances_keeps_excluded_region:
  "GetAllGceInstances Parse ctx excludedRegions excludeAfter
     = GetAllGceInstances Parse ctx [] excludeAfter
   \<and> GetAllGceInstances sampleParse sampleCtx [''us-central1''] 1550000000
     = Inr [\<lparr>InstanceName = ''vm-1'', Zone = ''us-central1-a'', RegionName = ''us-central1''\<rparr>]"
proof
  show "GetAllGceInstances Parse ctx excludedRegions excludeAfter
     = GetAllGceInstances Parse ctx [] excludeAfter"
    by (simp add: GetAllGceInstances_def excludedRegions_ignored_items [of _ _ excludedRegions]
        split: sum.splits)
next
  show "GetAllGceInstances sampleParse sampleCtx [''us-central1''] 1550000000
     = Inr [\<lparr>InstanceName = ''vm-1'', Zone = ''us-central1-a'', RegionName = ''us-central1''\<rparr>]"
    by code_simp
qed

section \<open>Properties of \<open>NukeAllResources\<close>\<close>

lemma nukeBatches_terminal:
  assumes "i < length batches"
      and "Nuke w log region resources (batches ! i) = Some err"
      and "\<not> Contains (Error err) ''RequestLimitExceeded''"
  shows "nukeBatches w region resources batches i log
     = (Some (WithStackTrace err), log @ [NukeCall region (kind resources) (batches ! i)])"
  using assms by (subst nukeBatches.simps) (simp add: Let_def)

lemma nukeBatches_rate_limit:
  assumes "i < length batches"
      and "Nuke w log region resources (batches ! i) = Some err"
      and "Contains (Error err) ''RequestLimitExceeded''"
  shows "nukeBatches w region resources batches i log
     = nukeBatches w region resources batches (i + 1)
         (log @ [NukeCall region (kind resources) (batches ! i), Sleep 60])"
  using assms by (subst nukeBatches.simps) (simp add: Let_def)

lemma nukeResources_prefix:
  "nukeResources w region before log = (Inr None, log') \<Longrightarrow>
   nukeResources w region (before @ rest) log = nukeResources w region rest log'"
proof (induction before arbitrary: log)
  case Nil
  then show ?case by simp
next
  case (Cons r before)
  from Cons.prems obtain batches mid where
    s: "split (identifiers r) (MaxBatchSize w (kind r)) = Inr batches" and
    b: "nukeBatches w region r batches 0 log = (None, mid)" and
    n: "nukeResources w region before mid = (Inr None, log')"
    by (auto split: sum.splits prod.splits option.splits)
  from Cons.IH [OF n] s b show ?case by simp
qed

lemma NukeAllResources_prefix:
  "NukeAllResources w account earlier log = (Inr None, log') \<Longrightarrow>
   NukeAllResources w account (earlier @ later) log = NukeAllResources w account later log'"
proof (induction earlier arbitrary: log)
  case Nil
  then show ?case by simp
next
  case (Cons region earlier)
  let ?rs = "case map_of account region of None \<Rightarrow> [] | Some r \<Rightarrow> Resources r"
  from Cons.prems obtain mid where
    s: "NewSession w region = None" and
    r: "nukeResources w region ?rs log = (Inr None, mid)" and
    n: "NukeAllResources w account earlier mid = (Inr None, log')"
    by (auto simp: Let_def split: sum.splits prod.splits option.splits)
  from Cons.IH [OF n] s r show ?case by (simp add: Let_def)
qed

text \<open>
  C1, as the code has it. Whatever was deleted without error before (earlier regions,
  earlier resource types of the region): when the delete call for the first of the two
  batches of a resource type returns an error that is not a rate limit,
  \<open>NukeAllResources\<close> returns that error, wrapped, at once. The failing call is the last
  event of the run: the second batch is not attempted, nor any later resource type or
  region, and the result is that single error.
\<close>

theorem NukeAllResources_stops_at_terminal_error:
  assumes "NukeAllResources w account earlier log = (Inr None, log1)"
      and "NewSession w region = None"
      and "map_of account region = Some \<lparr>Resources = before @ resources # rest\<rparr>"
      and "nukeResources w region before log1 = (Inr None, log2)"
      and "split (identifiers resources) (MaxBatchSize w (kind resources)) = Inr [batch1, batch2]"
      and "Nuke w log2 region resources batch1 = Some err"
      and "\<not> Contains (Error err) ''RequestLimitExceeded''"
  shows "NukeAllResources w account (earlier @ region # later) log
     = (Inr (Some (WithStackTrace err)), log2 @ [NukeCall region (kind resources) batch1])"
proof -
  have "nukeBatches w region resources [batch1, batch2] 0 log2
      = (Some (WithStackTrace err), log2 @ [NukeCall region (kind resources) batch1])"
    using nukeBatches_terminal [of 0 "[batch1, batch2]" w log2 region resources err] assms(6,7)
    by simp
  then have "nukeResources w region (resources # rest) log2
      = (Inr (Some (WithStackTrace err)), log2 @ [NukeCall region (kind resources) batch1])"
    using assms(5) by simp
  then have "nukeResources w region (before @ resources # rest) log1
      = (Inr (Some (WithStackTrace err)), log2 @ [NukeCall region (kind resources) batch1])"
    using nukeResources_prefix [OF assms(4), of "resources # rest"] by simp
  then have "NukeAllResources w account (region # later) log1
      = (Inr (Some (WithStackTrace err)), log2 @ [NukeCall region (kind resources) batch1])"
    using assms(2,3) by simp
  then show ?thesis
    using NukeAllResources_prefix [OF assms(1), of "region # later"] by simp
qed

theorem NukeAllResources_stops_at_terminal_error_witness:
  "NukeAllResources refusingWorld laterAccount [''us-west-2''] []
       = (Inr None, [NukeCall ''us-west-2'' EC2Instances [''i-3'']])
   \<and> NewSession refusingWorld ''us-east-1'' = None
   \<and> map_of laterAccount ''us-east-1''
       = Some \<lparr>Resources =
          [\<lparr>kind = ASGroups, identifiers = [''asg-1''], ServiceClusterMap = []\<rparr>]
          @ \<lparr>kind = EC2Instances, identifiers = [''i-1'', ''i-2''], ServiceClusterMap = []\<rparr>
          # [\<lparr>kind = EBSVolumes, identifiers = [''vol-1''], ServiceClusterMap = []\<rparr>]\<rparr>
   \<and> nukeResources refusingWorld ''us-east-1''
        [\<lparr>kind = ASGroups, identifiers = [''asg-1''], ServiceClusterMap = []\<rparr>]
        [NukeCall ''us-west-2'' EC2Instances [''i-3'']]
       = (Inr None, [NukeCall ''us-west-2'' EC2Instances [''i-3''],
                     NukeCall ''us-east-1'' ASGroups [''asg-1'']])
   \<and> split [''i-1'', ''i-2''] (MaxBatchSize refusingWorld EC2Instances) = Inr [[''i-1''], [''i-2'']]
   \<and> Nuke refusingWorld
        [NukeCall ''us-west-2'' EC2Instances [''i-3''], NukeCall ''us-east-1'' ASGroups [''asg-1'']]
        ''us-east-1''
        \<lparr>kind = EC2Instances, identifiers = [''i-1'', ''i-2''], ServiceClusterMap = []\<rparr> [''i-1'']
       = Some (Err ''UnauthorizedOperation: not allowed'')
   \<and> \<not> Contains ''UnauthorizedOperation: not allowed'' ''RequestLimitExceeded''
   \<and> NukeAllResources refusingWorld laterAccount [''us-west-2'', ''us-east-1'', ''eu-west-1''] []
       = (Inr (Some (WithStackTrace (Err ''UnauthorizedOperation: not allowed''))),
          [NukeCall ''us-west-2'' EC2Instances [''i-3''],
           NukeCall ''us-east-1'' ASGroups [''asg-1''],
           NukeCall ''us-east-1'' EC2Instances [''i-1'']])"
proof -
  let ?asg = "\<lparr>kind = ASGroups, identifiers = [''asg-1''], ServiceClusterMap = []\<rparr>"
  let ?ec2 = "\<lparr>kind = EC2Instances, identifiers = [''i-1'', ''i-2''], ServiceClusterMap = []\<rparr>"
  let ?ebs = "\<lparr>kind = EBSVolumes, identifiers = [''vol-1''], ServiceClusterMap = []\<rparr>"
  let ?log1 = "[NukeCall ''us-west-2'' EC2Instances [''i-3'']]"
  let ?log2 = "[NukeCall ''us-west-2'' EC2Instances [''i-3''],
                NukeCall ''us-east-1'' ASGroups [''asg-1'']]"
  have a1: "NukeAllResources refusingWorld laterAccount [''us-west-2''] [] = (Inr None, ?log1)"
    by code_simp
  have a2: "NewSession refusingWorld ''us-east-1'' = None"
    by (simp add: refusingWorld_def quietWorld_def)
  have a3: "map_of laterAccount ''us-east-1'' = Some \<lparr>Resources = [?asg] @ ?ec2 # [?ebs]\<rparr>"
    by (simp add: laterAccount_def)
  have a4: "nukeResources refusingWorld ''us-east-1'' [?asg] ?log1 = (Inr None, ?log2)"
    by code_simp
  have a5: "split (identifiers ?ec2) (MaxBatchSize refusingWorld (kind ?ec2))
      = Inr [[''i-1''], [''i-2'']]"
    by code_simp
  have a6: "Nuke refusingWorld ?log2 ''us-east-1'' ?ec2 [''i-1'']
      = Some (Err ''UnauthorizedOperation: not allowed'')"
    by (simp add: refusingWorld_def quietWorld_def)
  have a7: "\<not> Contains (Error (Err ''UnauthorizedOperation: not allowed'')) ''RequestLimitExceeded''"
    by code_simp
  from NukeAllResources_stops_at_terminal_error [OF a1 a2 a3 a4 a5 a6 a7, of "[''eu-west-1'']"]
    a1 a2 a3 a4 a5 a6 a7
  show ?thesis by simp
qed

text \<open>
  The claim fails on this input: the first batch \<open>[i-1]\<close> fails with an error that
  is not a rate limit, the delete call for the second batch \<open>[i-2]\<close> would succeed,
  and the second batch is never attempted.
\<close>

theorem NukeAllResources_terminal_counterexample:
  "split [''i-1'', ''i-2''] (MaxBatchSize refusingWorld EC2Instances) = Inr [[''i-1''], [''i-2'']]
   \<and> Nuke refusingWorld [NukeCall ''us-east-1'' EC2Instances [''i-1'']] ''us-east-1''
        \<lparr>kind = EC2Instances, identifiers = [''i-1'', ''i-2''], ServiceClusterMap = []\<rparr> [''i-2'']
       = None
   \<and> fst (NukeAllResources refusingWorld sampleAccount [''us-east-1'', ''us-west-2''] [])
       = Inr (Some (WithStackTrace (Err ''UnauthorizedOperation: not allowed'')))
   \<and> NukeCall ''us-east-1'' EC2Instances [''i-2'']
       \<notin> set (snd (NukeAllResources refusingWorld sampleAccount [''us-east-1'', ''us-west-2''] []))"
proof -
  have s: "split [''i-1'', ''i-2''] (MaxBatchSize refusingWorld EC2Instances)
      = Inr [[''i-1''], [''i-2'']]" by code_simp
  have n: "Nuke refusingWorld [NukeCall ''us-east-1'' EC2Instances [''i-1'']] ''us-east-1''
        \<lparr>kind = EC2Instances, identifiers = [''i-1'', ''i-2''], ServiceClusterMap = []\<rparr> [''i-2'']
       = None" by (simp add: refusingWorld_def quietWorld_def)
  have e: "NukeAllResources refusingWorld sampleAccount [''us-east-1'', ''us-west-2''] []
      = (Inr (Some (WithStackTrace (Err ''UnauthorizedOperation: not allowed''))),
         [NukeCall ''us-east-1'' EC2Instances [''i-1'']])" by code_simp
  show ?thesis unfolding e using s n by simp
qed

text \<open>
  C2, at a failing input. The delete call for the first batch \<open>[i-1]\<close> answers
  \<open>RequestLimitExceeded\<close> and would succeed if it were made again. The code sleeps
  a minute and goes on with the second batch: \<open>[i-1]\<close> is called once, never again,
  and the run ends with no error.
\<close>

theorem NukeAllResources_drops_rate_limited_batch:
  "Nuke throttledWorld [] ''us-east-1''
        \<lparr>kind = EC2Instances, identifiers = [''i-1'', ''i-2''], ServiceClusterMap = []\<rparr> [''i-1'']
       = Some (Err ''RequestLimitExceeded: Request limit exceeded.'')
   \<and> Contains ''RequestLimitExceeded: Request limit exceeded.'' ''RequestLimitExceeded''
   \<and> Nuke throttledWorld [NukeCall ''us-east-1'' EC2Instances [''i-1''], Sleep 60] ''us-east-1''
        \<lparr>kind = EC2Instances, identifiers = [''i-1'', ''i-2''], ServiceClusterMap = []\<rparr> [''i-1'']
       = None
   \<and> NukeAllResources throttledWorld sampleAccount [''us-east-1'', ''us-west-2''] []
       = (Inr None,
          [NukeCall ''us-east-1'' EC2Instances [''i-1''], Sleep 60,
           NukeCall ''us-east-1'' EC2Instances [''i-2''],
           NukeCall ''us-east-1'' EBSVolumes [''vol-1''],
           NukeCall ''us-west-2'' EC2Instances [''i-3'']])"
proof (intro conjI)
  show "Nuke throttledWorld [] ''us-east-1''
        \<lparr>kind = EC2Instances, identifiers = [''i-1'', ''i-2''], ServiceClusterMap = []\<rparr> [''i-1'']
       = Some (Err ''RequestLimitExceeded: Request limit exceeded.'')"
    by (simp add: throttledWorld_def quietWorld_def)
  show "Contains ''RequestLimitExceeded: Request limit exceeded.'' ''RequestLimitExceeded''"
    by code_simp
  show "Nuke throttledWorld [NukeCall ''us-east-1'' EC2Instances [''i-1''], Sleep 60] ''us-east-1''
        \<lparr>kind = EC2Instances, identifiers = [''i-1'', ''i-2''], ServiceClusterMap = []\<rparr> [''i-1'']
       = None"
    by (simp add: throttledWorld_def quietWorld_def)
  show "NukeAllResources throttledWorld sampleAccount [''us-east-1'', ''us-west-2''] []
       = (Inr None,
          [NukeCall ''us-east-1'' EC2Instances [''i-1''], Sleep 60,
           NukeCall ''us-east-1'' EC2Instances [''i-2''],
           NukeCall ''us-east-1'' EBSVolumes [''vol-1''],
           NukeCall ''us-west-2'' EC2Instances [''i-3'']])"
    by code_simp
qed

section \<open>Properties of \<open>GetAllResources\<close>\<close>

lemma listBlock_fails:
  assumes "IsNukeable (ResourceName w t) resourceTypes" "listCallFails w t region excludeAfter"
  shows "\<exists>err. listBlock w t region excludeAfter resourceTypes resources = Inl err"
  using assms
  by (cases t) (auto simp: listBlock_def listCallFails_def isl_def split: sum.splits)

lemma listBlocks_fails:
  assumes "t \<in> set ts" "IsNukeable (ResourceName w t) resourceTypes"
    "listCallFails w t region excludeAfter"
  shows "\<exists>err. listBlocks w ts region excludeAfter resourceTypes resources = Inl err"
  using assms(1)
proof (induction ts arbitrary: resources)
  case Nil
  then show ?case by simp
next
  case (Cons u us)
  show ?case
  proof (cases "listBlock w u region excludeAfter resourceTypes resources")
    case (Inl err)
    then show ?thesis by simp
  next
    case (Inr resources')
    with listBlock_fails [OF assms(2,3), of resources] have "u \<noteq> t" by auto
    with Cons.prems have "t \<in> set us" by simp
    from Cons.IH [OF this, of resources'] Inr show ?thesis by simp
  qed
qed

lemma resourceOrder_complete: "t \<in> set resourceOrder"
  by (cases t) (simp_all add: resourceOrder_def)

lemma GetAllResources_loop_fails:
  assumes "region \<in> set regions" "\<not> ListContainsElement excludedRegions region"
    "IsNukeable (ResourceName w t) resourceTypes" "listCallFails w t region excludeAfter"
  shows "\<exists>err. GetAllResources_loop w regions excludedRegions excludeAfter resourceTypes account
     = (None, Some err)"
  using assms(1)
proof (induction regions arbitrary: account)
  case Nil
  then show ?case by simp
next
  case (Cons r rs)
  show ?case
  proof (cases "r = region")
    case True
    obtain err where "listBlocks w resourceOrder region excludeAfter resourceTypes [] = Inl err"
      using listBlocks_fails [OF resourceOrder_complete assms(3,4)] by blast
    with True assms(2) show ?thesis by (simp split: option.splits)
  next
    case False
    with Cons.prems have "region \<in> set rs" by simp
    from Cons.IH [OF this] show ?thesis
      by (simp split: option.splits sum.splits)
  qed
qed

text \<open>
  C7. If a list call of a nukeable resource type fails in a region that is processed
  (one of \<open>regions\<close>, not excluded), \<open>GetAllResources\<close> returns an error and no
  inventory: \<open>(nil, err)\<close>, never the part gathered so far.
\<close>

theorem GetAllResources_all_or_nothing:
  assumes "region \<in> set regions" "\<not> ListContainsElement excludedRegions region"
    "IsNukeable (ResourceName w t) resourceTypes" "listCallFails w t region excludeAfter"
  shows "\<exists>err. GetAllResources w regions excludedRegions excludeAfter resourceTypes
     = (None, Some err)"
  unfolding GetAllResources_def using assms by (rule GetAllResources_loop_fails)

theorem GetAllResources_all_or_nothing_witness:
  "''us-west-2'' \<in> set [''us-east-1'', ''us-west-2'']
   \<and> \<not> ListContainsElement [] ''us-west-2''
   \<and> IsNukeable (ResourceName failingListWorld EBSVolumes) []
   \<and> listCallFails failingListWorld EBSVolumes ''us-west-2'' 0
   \<and> listIdentifiers failingListWorld ASGroups ''us-east-1'' 0 = Inr [''x'']
   \<and> GetAllResources failingListWorld [''us-east-1'', ''us-west-2''] [] 0 []
       = (None, Some (WithStackTrace (Err ''AuthFailure'')))"
proof -
  have a1: "''us-west-2'' \<in> set [''us-east-1'', ''us-west-2'']" by simp
  have a2: "\<not> ListContainsElement [] ''us-west-2''" by (simp add: ListContainsElement_def)
  have a3: "IsNukeable (ResourceName failingListWorld EBSVolumes) []" by (simp add: IsNukeable_def)
  have a4: "listCallFails failingListWorld EBSVolumes ''us-west-2'' 0"
    by (simp add: listCallFails_def failingListWorld_def quietWorld_def)
  have a5: "listIdentifiers failingListWorld ASGroups ''us-east-1'' 0 = Inr [''x'']"
    by (simp add: failingListWorld_def quietWorld_def)
  have e: "GetAllResources failingListWorld [''us-east-1'', ''us-west-2''] [] 0 []
       = (None, Some (WithStackTrace (Err ''AuthFailure'')))" by code_simp
  from GetAllResources_all_or_nothing [OF a1 a2 a3 a4] a1 a2 a3 a4 a5 e show ?thesis by simp
qed

text \<open>
  C4, at a failing input. Only \<open>ec2\<close> is enabled and its list call finds nothing in
  \<open>us-east-1\<close>; the kind is appended all the same, so the region's entry holds it with
  no identifiers and the region is part of the inventory.
\<close>

theorem GetAllResources_keeps_empty_types:
  "GetAllResources quietWorld [''us-east-1''] [] 0 [''ec2'']
     = (Some [(''us-east-1'',
          \<lparr>Resources = [\<lparr>kind = EC2Instances, identifiers = [], ServiceClusterMap = []\<rparr>]\<rparr>)],
        None)
   \<and> listIdentifiers quietWorld EC2Instances ''us-east-1'' 0 = Inr []"
proof
  show "GetAllResources quietWorld [''us-east-1''] [] 0 [''ec2'']
     = (Some [(''us-east-1'',
          \<lparr>Resources = [\<lparr>kind = EC2Instances, identifiers = [], ServiceClusterMap = []\<rparr>]\<rparr>)],
        None)" by code_simp
  show "listIdentifiers quietWorld EC2Instances ''us-east-1'' 0 = Inr []"
    by (simp add: quietWorld_def)
qed

section \<open>Properties of \<open>awsNuke\<close>\<close>







section \<open>Properties of \<open>retryDescribeRegions\<close>\<close>









end
